theory Spec2Isabelle
  imports Main "HOL-Library.Word"
begin

section \<open>JavaScript strings\<close>

text \<open>
  A JavaScript string is a sequence of UTF-16 code units. Concatenation (\<open>+\<close>) is
  list append, \<open>.length\<close> is the list length, and a string is truthy exactly when it
  is not empty.
\<close>

type_synonym js_string = "16 word list"

definition js_str :: "string \<Rightarrow> js_string" where
  "js_str cs = map (\<lambda>c. of_nat (of_char c)) cs"

definition truthy :: "js_string \<Rightarrow> bool" where
  "truthy x \<longleftrightarrow> x \<noteq> []"

text \<open>
  \<open>String.prototype.trim\<close> removes white space and line terminators from both ends:
  TAB, LF, VT, FF, CR, SP, NBSP, U+1680, U+2000 to U+200A, U+2028, U+2029, U+202F,
  U+205F, U+3000 and U+FEFF. All of them are single code units.
\<close>

definition is_white_space :: "16 word \<Rightarrow> bool" where
  "is_white_space c \<longleftrightarrow>
     c \<in> set [0x9, 0xA, 0xB, 0xC, 0xD, 0x20, 0xA0, 0x1680, 0x2028, 0x2029, 0x202F,
              0x205F, 0x3000, 0xFEFF]
     \<or> (0x2000 \<le> c \<and> c \<le> 0x200A)"

definition trim :: "js_string \<Rightarrow> js_string" where
  "trim x = rev (dropWhile is_white_space (rev (dropWhile is_white_space x)))"

section \<open>Wire protocol (types/websocket.ts)\<close>

datatype ws_error_code =
    INVALID_JSON | UNKNOWN_TYPE | AUTH_REQUIRED | AUTH_FAILED | AUTH_TIMEOUT
  | NO_CONVERSATION | RATE_LIMIT_EXCEEDED | ALREADY_PROCESSING | INTERNAL_ERROR
  | EMPTY_CONTENT | MESSAGE_TOO_LONG | AI_TIMEOUT | AI_ERROR

datatype ws_connection_status =
  Disconnected | Connecting | Authenticating | Connected | Error

text \<open>
  \<open>WSIncomingMessage\<close> is a union discriminated by the \<open>type\<close> property, and the
  handler reads the other properties only after it has compared \<open>type\<close>. A parsed
  message is therefore modelled as one object with all the properties of the union:
  \<open>msg_type\<close> is \<open>None\<close> when the parsed value has no string \<open>type\<close>, \<open>msg_message_id\<close>
  is \<open>None\<close> when the optional \<open>message_id\<close> is absent, and a property that the matching
  \<open>case\<close> never reads may hold anything.
\<close>

record ws_incoming_message =
  msg_type :: "js_string option"
  msg_conversation_id :: js_string
  msg_content :: js_string
  msg_done :: bool
  msg_message_id :: "js_string option"
  msg_error :: js_string
  msg_code :: ws_error_code

datatype ws_outgoing_message =
    WSAuthMessage js_string
  | WSChatMessage js_string
  | WSPongMessage

text \<open>
  \<open>event.data\<close> as \<open>JSON.parse\<close> and the property access see it: text that does not
  parse (the \<open>SyntaxError\<close> is caught), the value \<open>null\<close> (reading \<open>message.type\<close>
  throws a \<open>TypeError\<close>, which is caught too), or any other parsed value.
\<close>

datatype ws_event_data =
    NotJSON
  | JSONNull
  | Parsed ws_incoming_message

section \<open>The stores\<close>

record ws_error =
  message :: js_string
  code :: ws_error_code

record streaming_message =
  sm_id :: js_string
  content :: js_string
  isStreaming :: bool

datatype message_role = RoleSystem | RoleUser | RoleAssistant

record pending_message =
  pm_id :: js_string
  pm_role :: message_role
  pm_content :: js_string
  pm_prompt_tokens :: "nat option"
  pm_completion_tokens :: "nat option"
  pm_model_used :: js_string
  pm_created_at :: js_string

datatype ready_state = CONNECTING | OPEN | CLOSING | CLOSED

datatype timer = Timer nat

text \<open>
  The client state: the fields of \<open>useWebSocketStore\<close> (\<open>status\<close>, \<open>error\<close>,
  \<open>conversationId\<close>), the fields of \<open>useChatStore\<close> (\<open>currentConversationId\<close>,
  \<open>streamingMessage\<close>, \<open>pendingUserMessage\<close>) and the refs of the \<open>useWebSocket\<close> hook.
  \<open>wsRef\<close> is \<open>None\<close> for \<open>null\<close> and otherwise the \<open>readyState\<close> of the socket it
  holds; a timer handle is represented by the delay it was created with.
\<close>

record client_state =
  status :: ws_connection_status
  error :: "ws_error option"
  conversationId :: "js_string option"
  currentConversationId :: "js_string option"
  streamingMessage :: "streaming_message option"
  pendingUserMessage :: "pending_message option"
  wsRef :: "ready_state option"
  reconnectAttempts :: nat
  reconnectTimeoutRef :: "timer option"

definition initial_state :: client_state where
  "initial_state =
     \<lparr>status = Disconnected, error = None, conversationId = None,
      currentConversationId = None, streamingMessage = None, pendingUserMessage = None,
      wsRef = None, reconnectAttempts = 0, reconnectTimeoutRef = None\<rparr>"

subsection \<open>useWebSocketStore\<close>

definition setStatus :: "ws_connection_status \<Rightarrow> client_state \<Rightarrow> client_state" where
  "setStatus st s = s\<lparr>status := st\<rparr>"

definition setError :: "ws_error option \<Rightarrow> client_state \<Rightarrow> client_state" where
  "setError e s =
     s\<lparr>error := e, status := (case e of Some _ \<Rightarrow> Error | None \<Rightarrow> status s)\<rparr>"

definition setConversationId :: "js_string option \<Rightarrow> client_state \<Rightarrow> client_state" where
  "setConversationId cid s = s\<lparr>conversationId := cid\<rparr>"

definition reset :: "client_state \<Rightarrow> client_state" where
  "reset s = s\<lparr>status := Disconnected, error := None, conversationId := None\<rparr>"

subsection \<open>useChatStore\<close>

definition setCurrentConversationId :: "js_string option \<Rightarrow> client_state \<Rightarrow> client_state" where
  "setCurrentConversationId cid s = s\<lparr>currentConversationId := cid\<rparr>"

definition startStreaming :: "js_string \<Rightarrow> client_state \<Rightarrow> client_state" where
  "startStreaming i s =
     s\<lparr>streamingMessage := Some \<lparr>sm_id = i, content = [], isStreaming = True\<rparr>\<rparr>"

definition appendStreamContent :: "js_string \<Rightarrow> client_state \<Rightarrow> client_state" where
  "appendStreamContent c s =
     s\<lparr>streamingMessage :=
         (case streamingMessage s of
            Some sm \<Rightarrow> Some (sm\<lparr>content := content sm @ c\<rparr>)
          | None \<Rightarrow> None)\<rparr>"

definition finishStreaming :: "js_string \<Rightarrow> client_state \<Rightarrow> client_state" where
  "finishStreaming messageId s =
     s\<lparr>streamingMessage :=
         (case streamingMessage s of
            Some sm \<Rightarrow> Some (sm\<lparr>sm_id := messageId, isStreaming := False\<rparr>)
          | None \<Rightarrow> None)\<rparr>"

definition clearStreaming :: "client_state \<Rightarrow> client_state" where
  "clearStreaming s = s\<lparr>streamingMessage := None\<rparr>"

definition setPendingUserMessage :: "pending_message option \<Rightarrow> client_state \<Rightarrow> client_state" where
  "setPendingUserMessage m s = s\<lparr>pendingUserMessage := m\<rparr>"

section \<open>The useWebSocket hook\<close>

text \<open>
  What a handler does besides updating the state: calls on a socket, timers, and calls
  of the callbacks that the caller of the hook passed in (each is invoked only when it
  was supplied).
\<close>

datatype effect =
    NewWebSocket js_string
  | WsSend ws_outgoing_message
  | WsClose nat
  | SetTimeout nat
  | ClearTimeout timer
  | OnConnected
  | OnStream ws_incoming_message
  | OnError ws_incoming_message
  | OnDisconnected

definition maxReconnectAttempts :: nat where
  "maxReconnectAttempts = 3"

text \<open>The body of \<open>ws.onmessage\<close>: the \<open>switch\<close> has no default case.\<close>

definition on_message :: "ws_event_data \<Rightarrow> client_state \<Rightarrow> client_state \<times> effect list" where
  "on_message d s =
     (case d of
        NotJSON \<Rightarrow> (s, [])
      | JSONNull \<Rightarrow> (s, [])
      | Parsed m \<Rightarrow>
          if msg_type m = Some (js_str ''auth.success'') then
            ((setConversationId (Some (msg_conversation_id m))
                (setError None (setStatus Connected s)))\<lparr>reconnectAttempts := 0\<rparr>,
             [OnConnected])
          else if msg_type m = Some (js_str ''chat.stream'') then
            (let s1 = (if truthy (msg_content m) then appendStreamContent (msg_content m) s
                       else s);
                 s2 = (case msg_message_id m of
                         Some i \<Rightarrow> if msg_done m \<and> truthy i then finishStreaming i s1 else s1
                       | None \<Rightarrow> s1)
             in (s2, [OnStream m]))
          else if msg_type m = Some (js_str ''chat.error'') then
            (clearStreaming (setError (Some \<lparr>message = msg_error m, code = msg_code m\<rparr>) s),
             [OnError m])
          else if msg_type m = Some (js_str ''ping'') then
            (s, [WsSend WSPongMessage])
          else (s, []))"

text \<open>
  What \<open>connect\<close> closes over: the \<open>conversationId\<close> option of the hook, the
  \<open>accessToken\<close> of the auth store and the constant \<open>WS_BASE_URL\<close>.
\<close>

record hook_env =
  opt_conversationId :: "js_string option"
  accessToken :: "js_string option"
  WS_BASE_URL :: js_string

definition connect :: "hook_env \<Rightarrow> client_state \<Rightarrow> client_state \<times> effect list" where
  "connect env s =
     (case (opt_conversationId env, accessToken env) of
        (Some cid, Some tok) \<Rightarrow>
          if \<not> truthy cid \<or> \<not> truthy tok then (s, [])
          else if wsRef s = Some OPEN then (s, [])
          else ((setStatus Connecting s)\<lparr>wsRef := Some CONNECTING\<rparr>,
                [NewWebSocket (WS_BASE_URL env @ js_str ''/ws/chat/'' @ cid @ js_str ''/'')])
      | _ \<Rightarrow> (s, []))"

text \<open>The body of \<open>ws.onopen\<close>; the token is the one \<open>connect\<close> closed over.\<close>

definition on_open :: "js_string \<Rightarrow> client_state \<Rightarrow> client_state \<times> effect list" where
  "on_open tok s = (setStatus Authenticating s, [WsSend (WSAuthMessage tok)])"

definition on_error :: "client_state \<Rightarrow> client_state \<times> effect list" where
  "on_error s =
     (setError (Some \<lparr>message = js_str ''WebSocket connection error'',
                      code = INTERNAL_ERROR\<rparr>) s, [])"

text \<open>
  The body of \<open>ws.onclose\<close> for a close event with the given code. The counter is
  incremented before the delay is computed from it.
\<close>

definition on_close :: "nat \<Rightarrow> client_state \<Rightarrow> client_state \<times> effect list" where
  "on_close close_code s =
     (let s1 = clearStreaming (s\<lparr>wsRef := None\<rparr>) in
      if close_code = 4001 then
        (reset (setError (Some \<lparr>message = js_str ''Authentication failed'',
                                code = AUTH_FAILED\<rparr>) s1), [])
      else if close_code \<noteq> 1000 \<and> reconnectAttempts s1 < maxReconnectAttempts then
        (let n = reconnectAttempts s1 + 1;
             delay = min (1000 * 2 ^ n) 10000
         in (s1\<lparr>reconnectAttempts := n, reconnectTimeoutRef := Some (Timer delay)\<rparr>,
             [SetTimeout delay]))
      else (reset s1, [OnDisconnected]))"

definition disconnect :: "client_state \<Rightarrow> client_state \<times> effect list" where
  "disconnect s =
     (let (s1, e1) = (case reconnectTimeoutRef s of
                        Some t \<Rightarrow> (s\<lparr>reconnectTimeoutRef := None\<rparr>, [ClearTimeout t])
                      | None \<Rightarrow> (s, []));
          (s2, e2) = (case wsRef s1 of
                        Some _ \<Rightarrow> (s1\<lparr>wsRef := None\<rparr>, [WsClose 1000])
                      | None \<Rightarrow> (s1, []))
      in (reset s2, e1 @ e2))"

text \<open>
  \<open>sendMessage(content)\<close>; the second argument is the value of \<open>crypto.randomUUID()\<close>.
  The result is the returned boolean, the new state and the effects.
\<close>

definition sendMessage ::
  "js_string \<Rightarrow> js_string \<Rightarrow> client_state \<Rightarrow> bool \<times> client_state \<times> effect list" where
  "sendMessage c uuid s =
     (if wsRef s \<noteq> Some OPEN then (False, s, [])
      else (True, startStreaming uuid s, [WsSend (WSChatMessage c)]))"

section \<open>MessageInput and ChatArea\<close>

definition isStreaming_now :: "client_state \<Rightarrow> bool" where
  "isStreaming_now s = (case streamingMessage s of Some sm \<Rightarrow> isStreaming sm | None \<Rightarrow> False)"

definition canSend :: "client_state \<Rightarrow> js_string \<Rightarrow> bool" where
  "canSend s text \<longleftrightarrow> status s = Connected \<and> \<not> isStreaming_now s \<and> length (trim text) > 0"

text \<open>
  What \<open>handleSend\<close> reads besides the stores: the text of the input field, the
  constant \<open>MAX_USER_MESSAGE_LENGTH\<close> (its declaration is not part of the sources at
  hand), the selected model, the clock and the two values of \<open>crypto.randomUUID()\<close>
  (one for the pending message, one inside \<open>sendMessage\<close>).
\<close>

record send_input =
  input_text :: js_string
  MAX_USER_MESSAGE_LENGTH :: nat
  selected_model :: js_string
  now_iso :: js_string
  pending_uuid :: js_string
  stream_uuid :: js_string

text \<open>
  \<open>handleSend\<close> of \<open>MessageInput\<close>, with \<open>onSend\<close> bound to \<open>sendMessage\<close> as \<open>ChatArea\<close>
  binds it. The result is the new state, the new text of the input field and the
  effects.
\<close>

definition handleSend :: "send_input \<Rightarrow> client_state \<Rightarrow> client_state \<times> js_string \<times> effect list" where
  "handleSend i s =
     (if \<not> canSend s (input_text i) then (s, input_text i, [])
      else
        (let trimmedContent = trim (input_text i) in
         if length trimmedContent > MAX_USER_MESSAGE_LENGTH i then (s, input_text i, [])
         else
           (let pendingMessage =
                  \<lparr>pm_id = pending_uuid i, pm_role = RoleUser, pm_content = trimmedContent,
                   pm_prompt_tokens = None, pm_completion_tokens = None,
                   pm_model_used = selected_model i, pm_created_at = now_iso i\<rparr>;
                (success, s2, effs) =
                  sendMessage trimmedContent (stream_uuid i)
                    (setPendingUserMessage (Some pendingMessage) s)
            in if success then (s2, [], effs)
               else (setPendingUserMessage None s2, input_text i, effs))))"

text \<open>
  The callbacks that \<open>ChatArea\<close> passes to the hook: \<open>onStream\<close> and \<open>onError\<close>
  (\<open>onStream\<close> also invalidates the message query, which is outside the client state).
\<close>

definition chatArea_onStream :: "ws_incoming_message \<Rightarrow> client_state \<Rightarrow> client_state" where
  "chatArea_onStream m s = (if msg_done m then setPendingUserMessage None s else s)"

definition chatArea_onError :: "ws_incoming_message \<Rightarrow> client_state \<Rightarrow> client_state" where
  "chatArea_onError m s = clearStreaming (setPendingUserMessage None s)"

fun chatArea_callback :: "effect \<Rightarrow> client_state \<Rightarrow> client_state" where
  "chatArea_callback (OnStream m) s = chatArea_onStream m s"
| "chatArea_callback (OnError m) s = chatArea_onError m s"
| "chatArea_callback _ s = s"

section \<open>Runs of the client\<close>

text \<open>
  The events that reach the client: calls of \<open>connect\<close> (on mount, from the reconnect
  timer, from the retry button) and \<open>disconnect\<close>, the four socket events, a change of
  the \<open>readyState\<close> of the socket in \<open>wsRef\<close> made by the browser, a direct call of
  \<open>sendMessage\<close>, a send from the input field, and the selection of a conversation.
\<close>

datatype event =
    EvConnect hook_env
  | EvDisconnect
  | EvOpen js_string
  | EvMessage ws_event_data
  | EvError
  | EvClose nat
  | EvReadyState ready_state
  | EvSendMessage js_string js_string
  | EvHandleSend send_input
  | EvSelectConversation "js_string option"

definition handle :: "event \<Rightarrow> client_state \<Rightarrow> client_state \<times> effect list" where
  "handle ev s =
     (case ev of
        EvConnect env \<Rightarrow> connect env s
      | EvDisconnect \<Rightarrow> disconnect s
      | EvOpen tok \<Rightarrow> on_open tok s
      | EvMessage d \<Rightarrow> on_message d s
      | EvError \<Rightarrow> on_error s
      | EvClose c \<Rightarrow> on_close c s
      | EvReadyState r \<Rightarrow> (s\<lparr>wsRef := map_option (\<lambda>_. r) (wsRef s)\<rparr>, [])
      | EvSendMessage c uuid \<Rightarrow> snd (sendMessage c uuid s)
      | EvHandleSend i \<Rightarrow> (case handleSend i s of (s', _, effs) \<Rightarrow> (s', effs))
      | EvSelectConversation cid \<Rightarrow> (setCurrentConversationId cid s, []))"

text \<open>A handler runs, and the callbacks it invoked run on the state it left.\<close>

definition step :: "event \<Rightarrow> client_state \<Rightarrow> client_state \<times> effect list" where
  "step ev s = (case handle ev s of (s', effs) \<Rightarrow> (fold chatArea_callback effs s', effs))"

fun run :: "event list \<Rightarrow> client_state \<Rightarrow> client_state \<times> effect list" where
  "run [] s = (s, [])"
| "run (ev # evs) s =
     (case step ev s of (s1, e1) \<Rightarrow> (case run evs s1 of (s2, e2) \<Rightarrow> (s2, e1 @ e2)))"

fun is_SetTimeout :: "effect \<Rightarrow> bool" where
  "is_SetTimeout (SetTimeout _) = True"
| "is_SetTimeout _ = False"

text \<open>
  Events between two closes that leave the reconnect counter alone: everything except
  a close and an \<open>auth.success\<close> frame.
\<close>

fun quiet :: "event \<Rightarrow> bool" where
  "quiet (EvClose _) = False"
| "quiet (EvMessage (Parsed m)) = (msg_type m \<noteq> Some (js_str ''auth.success''))"
| "quiet _ = True"

fun is_send :: "event \<Rightarrow> bool" where
  "is_send (EvSendMessage _ _) = True"
| "is_send (EvHandleSend _) = True"
| "is_send _ = False"

text \<open>
  The concatenation of the \<open>content\<close> fields of the frames with \<open>done: false\<close>, in order.
\<close>

definition non_terminal_content :: "ws_incoming_message list \<Rightarrow> js_string" where
  "non_terminal_content ms = concat (map msg_content (filter (\<lambda>m. \<not> msg_done m) ms))"

text \<open>
  Modelled from the spec: the frames of one generation, which the server's stream
  orchestrator emits (the server is not part of the sources at hand). Each delta is
  relayed as \<open>chat.stream{content: delta, done: false}\<close>, and on completion the server
  emits the terminal frame \<open>chat.stream{content: "", done: true, message_id}\<close> with
  the id it assigned to the persisted message.
\<close>

definition is_delta :: "ws_incoming_message \<Rightarrow> bool" where
  "is_delta m \<longleftrightarrow> msg_type m = Some (js_str ''chat.stream'') \<and> \<not> msg_done m"

definition is_terminal :: "ws_incoming_message \<Rightarrow> bool" where
  "is_terminal m \<longleftrightarrow>
     msg_type m = Some (js_str ''chat.stream'') \<and> msg_done m \<and> msg_content m = []
     \<and> (case msg_message_id m of Some i \<Rightarrow> i \<noteq> [] | None \<Rightarrow> False)"

section \<open>Concrete frames and states\<close>

definition ex_frame :: "string \<Rightarrow> ws_incoming_message" where
  "ex_frame t =
     \<lparr>msg_type = Some (js_str t), msg_conversation_id = js_str ''conv-1'',
      msg_content = [], msg_done = False, msg_message_id = None,
      msg_error = js_str ''upstream failed'', msg_code = AI_ERROR\<rparr>"

definition ex_delta :: "string \<Rightarrow> ws_incoming_message" where
  "ex_delta c = (ex_frame ''chat.stream'')\<lparr>msg_content := js_str c\<rparr>"

definition ex_terminal :: "string \<Rightarrow> string \<Rightarrow> ws_incoming_message" where
  "ex_terminal c i =
     (ex_frame ''chat.stream'')
       \<lparr>msg_content := js_str c, msg_done := True, msg_message_id := Some (js_str i)\<rparr>"

definition ex_connected :: client_state where
  "ex_connected =
     initial_state\<lparr>status := Connected, conversationId := Some (js_str ''conv-1''),
                   wsRef := Some OPEN\<rparr>"

definition ex_authenticating :: client_state where
  "ex_authenticating =
     initial_state\<lparr>status := Authenticating, currentConversationId := Some (js_str ''conv-1''),
                   wsRef := Some OPEN\<rparr>"

definition ex_streaming :: client_state where
  "ex_streaming = startStreaming (js_str ''corr-1'') ex_connected"

definition ex_send_input :: send_input where
  "ex_send_input =
     \<lparr>input_text = js_str '' hello '', MAX_USER_MESSAGE_LENGTH = 10000,
      selected_model = js_str ''gpt-4o'', now_iso = js_str ''2025-01-01T00:00:00.000Z'',
      pending_uuid = js_str ''p-1'', stream_uuid = js_str ''corr-1''\<rparr>"

text \<open>
  Three abnormal closes in a row from a connected client, with a transport error
  reported after the first.
\<close>

definition ex_close1 :: client_state where
  "ex_close1 = fst (step (EvClose 1006) ex_connected)"

definition ex_retry1 :: client_state where
  "ex_retry1 = fst (run [EvError] ex_close1)"

definition ex_close2 :: client_state where
  "ex_close2 = fst (step (EvClose 1006) ex_retry1)"

definition ex_close3 :: client_state where
  "ex_close3 = fst (step (EvClose 1011) ex_close2)"

section \<open>Properties\<close>

lemmas store_defs = setStatus_def setError_def setConversationId_def reset_def
  setCurrentConversationId_def startStreaming_def appendStreamContent_def
  finishStreaming_def clearStreaming_def setPendingUserMessage_def

lemmas ex_defs = ex_frame_def ex_delta_def ex_terminal_def ex_connected_def ex_streaming_def
  ex_send_input_def initial_state_def

subsection \<open>Strings\<close>

lemma of_char_lt_65536: "(of_char c :: nat) < 2 ^ 16"
proof -
  have "(of_char c :: nat) mod 256 < 256" by simp
  then have "(of_char c :: nat) < 256" by (simp only: of_char_mod_256)
  moreover have "(2::nat) ^ 16 = 65536" by simp
  ultimately show ?thesis by linarith
qed

lemma js_str_eq_iff: "js_str a = js_str b \<longleftrightarrow> a = b"
proof -
  have "inj (\<lambda>c::char. (of_nat (of_char c) :: 16 word))"
  proof (rule injI)
    fix x y :: char
    assume "(of_nat (of_char x) :: 16 word) = of_nat (of_char y)"
    then have "unat (of_nat (of_char x) :: 16 word) = unat (of_nat (of_char y) :: 16 word)"
      by simp
    then have "(of_char x :: nat) = of_char y"
      using of_char_lt_65536 [of x] of_char_lt_65536 [of y]
      by (simp add: unat_of_nat take_bit_nat_eq_self)
    then show "x = y" by simp
  qed
  then show ?thesis
    unfolding js_str_def by (simp add: inj_map_eq_map)
qed

subsection \<open>Steps and runs\<close>

lemma fst_step:
  "fst (step ev s) = fold chatArea_callback (snd (handle ev s)) (fst (handle ev s))"
  by (simp add: step_def split_beta)

lemma fst_run_Cons: "fst (run (ev # evs) s) = fst (run evs (fst (step ev s)))"
  by (simp add: split_beta)

lemma step_close: "step (EvClose c) s = on_close c s"
  by (auto simp: step_def handle_def on_close_def Let_def split: prod.splits)

text \<open>The callbacks of \<open>ChatArea\<close> never create an accumulator and never touch the counter.\<close>

lemma callback_streaming_None:
  "streamingMessage s = None \<Longrightarrow> streamingMessage (chatArea_callback e s) = None"
  by (cases e) (simp_all add: chatArea_onStream_def chatArea_onError_def store_defs)

lemma callbacks_streaming_None:
  "streamingMessage s = None \<Longrightarrow> streamingMessage (fold chatArea_callback effs s) = None"
  by (induction effs arbitrary: s) (simp_all add: callback_streaming_None)

lemma callback_reconnectAttempts:
  "reconnectAttempts (chatArea_callback e s) = reconnectAttempts s"
  by (cases e) (simp_all add: chatArea_onStream_def chatArea_onError_def store_defs)

lemma callbacks_reconnectAttempts:
  "reconnectAttempts (fold chatArea_callback effs s) = reconnectAttempts s"
  by (induction effs arbitrary: s) (simp_all add: callback_reconnectAttempts)

subsection \<open>Streaming accumulation\<close>

lemma fst_run_append: "fst (run (as @ bs) s) = fst (run bs (fst (run as s)))"
proof (induction as arbitrary: s)
  case Nil
  then show ?case by simp
next
  case (Cons a as)
  then show ?case by (simp add: split_beta)
qed

lemma step_stream_frame:
  assumes "msg_type m = Some (js_str ''chat.stream'')" and "streamingMessage s = Some sm"
  shows "streamingMessage (fst (step (EvMessage (Parsed m)) s)) =
     Some (case msg_message_id m of
             Some i \<Rightarrow>
               if msg_done m \<and> i \<noteq> []
               then \<lparr>sm_id = i, content = content sm @ msg_content m, isStreaming = False\<rparr>
               else sm\<lparr>content := content sm @ msg_content m\<rparr>
           | None \<Rightarrow> sm\<lparr>content := content sm @ msg_content m\<rparr>)"
  using assms
  by (auto simp: fst_step handle_def on_message_def js_str_eq_iff truthy_def Let_def
        chatArea_onStream_def store_defs split: option.splits)

lemma step_delta:
  assumes "is_delta m" and "streamingMessage s = Some sm"
  shows "streamingMessage (fst (step (EvMessage (Parsed m)) s))
           = Some (sm\<lparr>content := content sm @ msg_content m\<rparr>)"
  using assms step_stream_frame [of m s sm]
  by (simp add: is_delta_def split: option.splits)

lemma step_terminal:
  assumes "is_terminal f" and "msg_message_id f = Some i" and "streamingMessage s = Some sm"
  shows "streamingMessage (fst (step (EvMessage (Parsed f)) s))
           = Some (sm\<lparr>sm_id := i, isStreaming := False\<rparr>)"
  using assms step_stream_frame [of f s sm]
  by (simp add: is_terminal_def)

lemma run_deltas:
  "list_all is_delta ds \<Longrightarrow> streamingMessage s = Some sm \<Longrightarrow>
     streamingMessage (fst (run (map (\<lambda>m. EvMessage (Parsed m)) ds) s))
       = Some (sm\<lparr>content := content sm @ concat (map msg_content ds)\<rparr>)"
proof (induction ds arbitrary: s sm)
  case Nil
  then show ?case by simp
next
  case (Cons m ds)
  from Cons.prems have d: "is_delta m" and ds: "list_all is_delta ds" by simp_all
  have "streamingMessage (fst (step (EvMessage (Parsed m)) s))
          = Some (sm\<lparr>content := content sm @ msg_content m\<rparr>)"
    using d Cons.prems(2) by (rule step_delta)
  from Cons.IH [OF ds this] show ?case
    by (simp add: fst_run_Cons del: run.simps)
qed

lemma non_terminal_content_deltas:
  "list_all is_delta ds \<Longrightarrow> non_terminal_content ds = concat (map msg_content ds)"
  by (induction ds) (simp_all add: non_terminal_content_def is_delta_def)

lemma non_terminal_content_snoc:
  "is_terminal f \<Longrightarrow> non_terminal_content (ds @ [f]) = non_terminal_content ds"
  by (simp add: non_terminal_content_def is_terminal_def)

text \<open>
  C1. Take the frames of one generation: deltas with \<open>done: false\<close>, then the terminal
  frame with \<open>done: true\<close> and a \<open>message_id\<close>. From the accumulator that \<open>sendMessage\<close>
  starts, the content after the deltas, and after the whole generation, is the in-order
  concatenation of the \<open>content\<close> fields of the non-terminal frames, each exactly once.
  The terminal frame replaces the correlation id by its \<open>message_id\<close> and sets
  \<open>isStreaming\<close> to false. The same holds from any accumulator, whose content is kept in
  front: the deltas only append, and the terminal frame leaves the content unchanged.
\<close>

theorem generation_accumulates_deltas_in_order:
  assumes "list_all is_delta ds" and "is_terminal f" and "msg_message_id f = Some i"
  shows "streamingMessage (fst (run (map (\<lambda>m. EvMessage (Parsed m)) ds) (startStreaming u s0)))
           = Some \<lparr>sm_id = u, content = non_terminal_content ds, isStreaming = True\<rparr>
     \<and> streamingMessage
          (fst (run (map (\<lambda>m. EvMessage (Parsed m)) (ds @ [f])) (startStreaming u s0)))
           = Some \<lparr>sm_id = i, content = non_terminal_content (ds @ [f]), isStreaming = False\<rparr>
     \<and> (streamingMessage s = Some sm \<longrightarrow>
          streamingMessage (fst (run (map (\<lambda>m. EvMessage (Parsed m)) ds) s))
            = Some (sm\<lparr>content := content sm @ non_terminal_content ds\<rparr>)
          \<and> streamingMessage (fst (step (EvMessage (Parsed f)) s))
            = Some (sm\<lparr>sm_id := i, isStreaming := False\<rparr>)
          \<and> streamingMessage
               (fst (run (map (\<lambda>m. EvMessage (Parsed m)) (ds @ [f])) s))
            = Some \<lparr>sm_id = i, content = content sm @ non_terminal_content (ds @ [f]),
                    isStreaming = False\<rparr>)"
proof -
  have gen: "streamingMessage (fst (run (map (\<lambda>m. EvMessage (Parsed m)) ds) t))
               = Some (a\<lparr>content := content a @ non_terminal_content ds\<rparr>)"
    if "streamingMessage t = Some a" for t a
    using run_deltas [OF assms(1) that] non_terminal_content_deltas [OF assms(1)] by simp
  have fin: "streamingMessage (fst (run (map (\<lambda>m. EvMessage (Parsed m)) (ds @ [f])) t))
               = Some \<lparr>sm_id = i, content = content a @ non_terminal_content (ds @ [f]),
                       isStreaming = False\<rparr>"
    if "streamingMessage t = Some a" for t a
  proof -
    have "streamingMessage
            (fst (step (EvMessage (Parsed f)) (fst (run (map (\<lambda>m. EvMessage (Parsed m)) ds) t))))
            = Some ((a\<lparr>content := content a @ non_terminal_content ds\<rparr>)
                      \<lparr>sm_id := i, isStreaming := False\<rparr>)"
      using assms(2,3) gen [OF that] by (rule step_terminal)
    moreover have "fst (run (map (\<lambda>m. EvMessage (Parsed m)) (ds @ [f])) t)
            = fst (step (EvMessage (Parsed f)) (fst (run (map (\<lambda>m. EvMessage (Parsed m)) ds) t)))"
      by (simp add: fst_run_append split_beta)
    ultimately show ?thesis
      by (cases a) (simp add: non_terminal_content_snoc [OF assms(2)] del: run.simps)
  qed
  have start: "streamingMessage (startStreaming u s0)
                 = Some \<lparr>sm_id = u, content = [], isStreaming = True\<rparr>"
    by (simp add: startStreaming_def)
  have one: "streamingMessage (fst (step (EvMessage (Parsed f)) s))
               = Some (sm\<lparr>sm_id := i, isStreaming := False\<rparr>)"
    if "streamingMessage s = Some sm"
    using assms(2,3) that by (rule step_terminal)
  show ?thesis
    using gen [OF start] fin [OF start] gen [of s sm] fin [of s sm] one by simp
qed

text \<open>
  The theorem at one generation: two deltas and the terminal frame, received after
  \<open>sendMessage\<close> started the accumulator.
\<close>

theorem generation_accumulates_deltas_in_order_witness:
  "list_all is_delta [ex_delta ''Hel'', ex_delta ''lo'']
   \<and> is_terminal (ex_terminal [] ''msg-9'')
   \<and> non_terminal_content [ex_delta ''Hel'', ex_delta ''lo'', ex_terminal [] ''msg-9'']
       = js_str ''Hello''
   \<and> streamingMessage (fst (run
        (map (\<lambda>m. EvMessage (Parsed m)) [ex_delta ''Hel'', ex_delta ''lo''])
        (startStreaming (js_str ''corr-1'') ex_connected)))
       = Some \<lparr>sm_id = js_str ''corr-1'', content = js_str ''Hello'', isStreaming = True\<rparr>
   \<and> streamingMessage (fst (run
        (map (\<lambda>m. EvMessage (Parsed m)) [ex_delta ''Hel'', ex_delta ''lo'', ex_terminal [] ''msg-9''])
        (startStreaming (js_str ''corr-1'') ex_connected)))
       = Some \<lparr>sm_id = js_str ''msg-9'', content = js_str ''Hello'', isStreaming = False\<rparr>
   \<and> streamingMessage ex_streaming
       = Some \<lparr>sm_id = js_str ''corr-1'', content = [], isStreaming = True\<rparr>
   \<and> streamingMessage (fst (step (EvMessage (Parsed (ex_terminal [] ''msg-9''))) ex_streaming))
       = Some \<lparr>sm_id = js_str ''msg-9'', content = [], isStreaming = False\<rparr>"
proof -
  have d: "list_all is_delta [ex_delta ''Hel'', ex_delta ''lo'']"
    by (simp add: is_delta_def ex_defs)
  have f: "is_terminal (ex_terminal [] ''msg-9'')"
    by (simp add: is_terminal_def ex_defs js_str_def)
  have i: "msg_message_id (ex_terminal [] ''msg-9'') = Some (js_str ''msg-9'')"
    by (simp add: ex_defs)
  have sm: "streamingMessage ex_streaming
              = Some \<lparr>sm_id = js_str ''corr-1'', content = [], isStreaming = True\<rparr>"
    by (simp add: ex_defs startStreaming_def)
  have nt: "non_terminal_content [ex_delta ''Hel'', ex_delta ''lo''] = js_str ''Hello''"
    "non_terminal_content [ex_delta ''Hel'', ex_delta ''lo'', ex_terminal [] ''msg-9'']
       = js_str ''Hello''"
    by (simp_all add: non_terminal_content_def ex_defs js_str_def)
  show ?thesis
    using generation_accumulates_deltas_in_order
            [OF d f i, of "js_str ''corr-1''" ex_connected ex_streaming
               "\<lparr>sm_id = js_str ''corr-1'', content = [], isStreaming = True\<rparr>"]
          d f sm nt
    by simp
qed

subsection \<open>Closing and reconnecting\<close>

text \<open>
  C2. A close whose code is neither 1000 nor 4001, with \<open>reconnectAttempts < 3\<close>,
  schedules exactly one reconnect and increments the counter. The delay is
  \<open>min (1000 * 2 ^ reconnectAttempts) 10000\<close> ms on the incremented counter, so at most
  10000 ms, and it is 2000, 4000 and 8000 ms for the attempts 1, 2 and 3.
\<close>

theorem abnormal_close_schedules_backoff:
  "c \<noteq> 1000 \<Longrightarrow> c \<noteq> 4001 \<Longrightarrow> reconnectAttempts s < 3 \<Longrightarrow>
     snd (on_close c s) = [SetTimeout (min (1000 * 2 ^ reconnectAttempts (fst (on_close c s))) 10000)]
     \<and> reconnectAttempts (fst (on_close c s)) = reconnectAttempts s + 1
     \<and> min (1000 * 2 ^ reconnectAttempts (fst (on_close c s))) 10000 \<le> (10000::nat)
     \<and> min (1000 * 2 ^ reconnectAttempts (fst (on_close c s))) 10000 =
         (if reconnectAttempts (fst (on_close c s)) = 1 then 2000
          else if reconnectAttempts (fst (on_close c s)) = 2 then 4000 else (8000::nat))"
proof -
  assume a: "c \<noteq> 1000" "c \<noteq> 4001" "reconnectAttempts s < 3"
  then have n: "reconnectAttempts (fst (on_close c s)) = reconnectAttempts s + 1"
    by (simp add: on_close_def Let_def maxReconnectAttempts_def store_defs)
  from a consider "reconnectAttempts s = 0" | "reconnectAttempts s = 1" | "reconnectAttempts s = 2"
    by linarith
  then have d: "min (1000 * 2 ^ (reconnectAttempts s + 1)) 10000 =
         (if reconnectAttempts s + 1 = 1 then 2000
          else if reconnectAttempts s + 1 = 2 then 4000 else (8000::nat))"
    by cases simp_all
  have e: "snd (on_close c s) = [SetTimeout (min (1000 * 2 ^ (reconnectAttempts s + 1)) 10000)]"
    using a by (simp add: on_close_def Let_def maxReconnectAttempts_def store_defs)
  show ?thesis
    unfolding n using d e by simp
qed

theorem abnormal_close_schedules_backoff_witness:
  "(1006::nat) \<noteq> 1000 \<and> (1006::nat) \<noteq> 4001 \<and> reconnectAttempts ex_streaming < 3
   \<and> snd (on_close 1006 ex_streaming) = [SetTimeout 2000]
   \<and> reconnectAttempts (fst (on_close 1006 ex_streaming)) = 1"
  using abnormal_close_schedules_backoff [of 1006 ex_streaming]
  by (simp add: ex_defs startStreaming_def)


text \<open>
  The handler on a client that is authenticating for the first time: the state it
  leaves shows neither the status \<open>error\<close> nor the error \<open>AUTH_FAILED\<close>.
\<close>

lemma auth_failure_close_on_first_authentication:
  "on_close 4001 ex_authenticating =
     (initial_state\<lparr>currentConversationId := Some (js_str ''conv-1'')\<rparr>, [])"
  by (simp add: on_close_def ex_authenticating_def initial_state_def store_defs)

lemma quiet_handle_counter:
  "quiet ev \<Longrightarrow> reconnectAttempts (fst (handle ev s)) = reconnectAttempts s"
proof (cases ev)
  case (EvMessage d)
  assume "quiet ev"
  with EvMessage show ?thesis
    by (cases d) (auto simp: handle_def on_message_def Let_def store_defs split: option.splits)
next
  case EvDisconnect
  then show ?thesis by (simp add: handle_def disconnect_def store_defs split: option.splits)
next
  case (EvConnect env)
  then show ?thesis by (simp add: handle_def connect_def store_defs split: option.splits)
next
  case (EvHandleSend i)
  then show ?thesis
    by (simp add: handle_def handleSend_def sendMessage_def Let_def store_defs split: prod.splits)
qed (simp_all add: handle_def on_open_def on_error_def sendMessage_def store_defs)

lemma quiet_step_counter:
  "quiet ev \<Longrightarrow> reconnectAttempts (fst (step ev s)) = reconnectAttempts s"
  by (simp only: fst_step callbacks_reconnectAttempts quiet_handle_counter)

lemma quiet_run_counter:
  "list_all quiet evs \<Longrightarrow> reconnectAttempts (fst (run evs s)) = reconnectAttempts s"
proof (induction evs arbitrary: s)
  case Nil
  then show ?case by simp
next
  case (Cons ev evs)
  then have "reconnectAttempts (fst (run evs (fst (step ev s)))) = reconnectAttempts s"
    by (simp add: quiet_step_counter)
  then show ?case by (simp only: fst_run_Cons)
qed

lemma close_scheduled_counter:
  "list_ex is_SetTimeout (snd (on_close c s)) \<Longrightarrow>
     reconnectAttempts (fst (on_close c s)) = reconnectAttempts s + 1"
  by (simp add: on_close_def Let_def maxReconnectAttempts_def store_defs split: if_splits)

text \<open>
  C4. Take three closes that each scheduled a reconnect, with any events between them
  other than a close and an \<open>auth.success\<close> frame. A fourth close whose code is neither
  1000 nor 4001 then schedules nothing: the handler resets the store to \<open>disconnected\<close>
  and calls \<open>onDisconnected\<close>.
\<close>

theorem fourth_abnormal_close_gives_up:
  assumes "step (EvClose c1) s0 = (t1, e1)" and "list_ex is_SetTimeout e1"
    and "list_all quiet es1" and "run es1 t1 = (s1, f1)"
    and "step (EvClose c2) s1 = (t2, e2)" and "list_ex is_SetTimeout e2"
    and "list_all quiet es2" and "run es2 t2 = (s2, f2)"
    and "step (EvClose c3) s2 = (t3, e3)" and "list_ex is_SetTimeout e3"
    and "list_all quiet es3" and "run es3 t3 = (s3, f3)"
    and "c4 \<noteq> 1000" and "c4 \<noteq> 4001"
  shows "step (EvClose c4) s3 = (reset (clearStreaming (s3\<lparr>wsRef := None\<rparr>)), [OnDisconnected])
     \<and> status (fst (step (EvClose c4) s3)) = Disconnected
     \<and> \<not> list_ex is_SetTimeout (snd (step (EvClose c4) s3))"
proof -
  have k1: "reconnectAttempts t1 = reconnectAttempts s0 + 1"
    using assms(1,2) close_scheduled_counter [of c1 s0] by (simp add: step_close)
  have "reconnectAttempts s1 = reconnectAttempts t1"
    using assms(3,4) quiet_run_counter [of es1 t1] by simp
  with k1 have n1: "reconnectAttempts s1 = reconnectAttempts s0 + 1" by simp
  have k2: "reconnectAttempts t2 = reconnectAttempts s1 + 1"
    using assms(5,6) close_scheduled_counter [of c2 s1] by (simp add: step_close)
  have "reconnectAttempts s2 = reconnectAttempts t2"
    using assms(7,8) quiet_run_counter [of es2 t2] by simp
  with k2 n1 have n2: "reconnectAttempts s2 = reconnectAttempts s0 + 2" by simp
  have k3: "reconnectAttempts t3 = reconnectAttempts s2 + 1"
    using assms(9,10) close_scheduled_counter [of c3 s2] by (simp add: step_close)
  have "reconnectAttempts s3 = reconnectAttempts t3"
    using assms(11,12) quiet_run_counter [of es3 t3] by simp
  with k3 n2 have "reconnectAttempts s3 = reconnectAttempts s0 + 3" by simp
  then have "\<not> reconnectAttempts s3 < 3" by simp
  then show ?thesis using assms(13,14)
    by (simp add: step_close on_close_def Let_def maxReconnectAttempts_def store_defs)
qed

lemma ex_close1_step: "step (EvClose 1006) ex_connected = (ex_close1, [SetTimeout 2000])"
  by (simp add: ex_close1_def step_close on_close_def Let_def maxReconnectAttempts_def ex_defs
        store_defs)

lemma ex_close1_counter: "reconnectAttempts ex_close1 = 1"
  by (simp add: ex_close1_def step_close on_close_def Let_def maxReconnectAttempts_def ex_defs
        store_defs)

lemma ex_retry1_run: "run [EvError] ex_close1 = (ex_retry1, [])"
  by (simp add: ex_retry1_def step_def handle_def on_error_def split_beta)

lemma ex_retry1_counter: "reconnectAttempts ex_retry1 = 1"
  by (simp add: ex_retry1_def fst_step handle_def on_error_def ex_close1_counter store_defs)

lemma ex_close2_step: "step (EvClose 1006) ex_retry1 = (ex_close2, [SetTimeout 4000])"
  by (simp add: ex_close2_def step_close on_close_def Let_def maxReconnectAttempts_def
        ex_retry1_counter store_defs)

lemma ex_close2_counter: "reconnectAttempts ex_close2 = 2"
  by (simp add: ex_close2_def step_close on_close_def Let_def maxReconnectAttempts_def
        ex_retry1_counter store_defs)

lemma ex_close3_step: "step (EvClose 1011) ex_close2 = (ex_close3, [SetTimeout 8000])"
  by (simp add: ex_close3_def step_close on_close_def Let_def maxReconnectAttempts_def
        ex_close2_counter store_defs)

text \<open>
  The theorem on a connected client that loses its socket three times (codes 1006,
  1006 and 1011, a transport error in between) and then a fourth time.
\<close>

theorem fourth_abnormal_close_gives_up_witness:
  "list_ex is_SetTimeout (snd (step (EvClose 1006) ex_connected))
   \<and> list_all quiet [EvError]
   \<and> list_ex is_SetTimeout (snd (step (EvClose 1006) ex_retry1))
   \<and> list_ex is_SetTimeout (snd (step (EvClose 1011) ex_close2))
   \<and> (1006::nat) \<noteq> 1000 \<and> (1006::nat) \<noteq> 4001
   \<and> step (EvClose 1006) ex_close3
       = (reset (clearStreaming (ex_close3\<lparr>wsRef := None\<rparr>)), [OnDisconnected])
   \<and> status (fst (step (EvClose 1006) ex_close3)) = Disconnected
   \<and> \<not> list_ex is_SetTimeout (snd (step (EvClose 1006) ex_close3))"
proof -
  have q: "list_all quiet [EvError]" and q0: "list_all quiet []" by simp_all
  have r0: "run [] ex_close2 = (ex_close2, [])" "run [] ex_close3 = (ex_close3, [])" by simp_all
  have t: "list_ex is_SetTimeout [SetTimeout 2000]" "list_ex is_SetTimeout [SetTimeout 4000]"
    "list_ex is_SetTimeout [SetTimeout 8000]" by simp_all
  have c: "(1006::nat) \<noteq> 1000" "(1006::nat) \<noteq> 4001" by simp_all
  show ?thesis
    using fourth_abnormal_close_gives_up
            [OF ex_close1_step t(1) q ex_retry1_run ex_close2_step t(2) q0 r0(1)
                ex_close3_step t(3) q0 r0(2) c]
    by (simp add: ex_close1_step ex_close2_step ex_close3_step reset_def)
qed

subsection \<open>Sending\<close>

text \<open>
  C5. \<open>sendMessage\<close> returns true exactly when the socket in \<open>wsRef\<close> is open, which is
  exactly when it dispatches the \<open>chat.message\<close> frame; when it returns false it sends
  nothing, starts no accumulator and leaves the state as it was. The input field calls
  it only when the status is \<open>connected\<close> and no accumulator is streaming: otherwise
  \<open>handleSend\<close> returns at once, with the state and the text unchanged and nothing sent.
\<close>

theorem sendMessage_reports_dispatch_and_is_gated:
  "fst (sendMessage c u s) = (wsRef s = Some OPEN)
   \<and> fst (sendMessage c u s) = (snd (snd (sendMessage c u s)) = [WsSend (WSChatMessage c)])
   \<and> (\<not> fst (sendMessage c u s) \<longrightarrow> sendMessage c u s = (False, s, []))
   \<and> (fst (sendMessage c u s) \<longrightarrow>
        sendMessage c u s = (True, startStreaming u s, [WsSend (WSChatMessage c)]))
   \<and> (status s \<noteq> Connected \<or> isStreaming_now s \<longrightarrow> handleSend i s = (s, input_text i, []))"
  by (simp add: sendMessage_def handleSend_def canSend_def)

theorem sendMessage_reports_dispatch_and_is_gated_witness:
  "\<not> fst (sendMessage (js_str ''hello'') (js_str ''corr-1'') initial_state)
   \<and> sendMessage (js_str ''hello'') (js_str ''corr-1'') initial_state = (False, initial_state, [])
   \<and> status initial_state \<noteq> Connected
   \<and> handleSend ex_send_input initial_state = (initial_state, input_text ex_send_input, [])"
  using sendMessage_reports_dispatch_and_is_gated
          [of "js_str ''hello''" "js_str ''corr-1''" initial_state ex_send_input]
  by (simp add: initial_state_def)

subsection \<open>Incoming frames\<close>

text \<open>
  C6. On a \<open>chat.error\<close> frame the handler records the frame's message and code as the
  error, sets the status to \<open>error\<close>, and sets the accumulator to null, so no partial
  content remains; it then calls \<open>onError\<close>. Nothing else in the state changes.
\<close>

theorem chat_error_sets_error_and_discards_accumulator:
  "msg_type m = Some (js_str ''chat.error'') \<Longrightarrow>
     on_message (Parsed m) s =
       (s\<lparr>error := Some \<lparr>message = msg_error m, code = msg_code m\<rparr>, status := Error,
          streamingMessage := None\<rparr>, [OnError m])
     \<and> status (fst (on_message (Parsed m) s)) = Error
     \<and> error (fst (on_message (Parsed m) s)) = Some \<lparr>message = msg_error m, code = msg_code m\<rparr>
     \<and> streamingMessage (fst (on_message (Parsed m) s)) = None"
  by (simp add: on_message_def js_str_eq_iff store_defs)

theorem chat_error_sets_error_and_discards_accumulator_witness:
  "msg_type (ex_frame ''chat.error'') = Some (js_str ''chat.error'')
   \<and> streamingMessage ex_streaming \<noteq> None
   \<and> status (fst (on_message (Parsed (ex_frame ''chat.error'')) ex_streaming)) = Error
   \<and> error (fst (on_message (Parsed (ex_frame ''chat.error'')) ex_streaming))
       = Some \<lparr>message = js_str ''upstream failed'', code = AI_ERROR\<rparr>
   \<and> streamingMessage (fst (on_message (Parsed (ex_frame ''chat.error'')) ex_streaming)) = None"
  using chat_error_sets_error_and_discards_accumulator [of "ex_frame ''chat.error''" ex_streaming]
  by (simp add: ex_defs startStreaming_def)

text \<open>
  C7. On an \<open>auth.success\<close> frame the status becomes \<open>connected\<close>, \<open>reconnectAttempts\<close>
  becomes 0, the error is cleared and the conversation id is the one of the frame.
  Handling the same frame a second time leaves the state that the first one made.
\<close>

theorem auth_success_connects_and_is_idempotent:
  "msg_type m = Some (js_str ''auth.success'') \<Longrightarrow>
     status (fst (on_message (Parsed m) s)) = Connected
     \<and> reconnectAttempts (fst (on_message (Parsed m) s)) = 0
     \<and> error (fst (on_message (Parsed m) s)) = None
     \<and> conversationId (fst (on_message (Parsed m) s)) = Some (msg_conversation_id m)
     \<and> fst (on_message (Parsed m) (fst (on_message (Parsed m) s))) = fst (on_message (Parsed m) s)"
  by (simp add: on_message_def js_str_eq_iff store_defs)

theorem auth_success_connects_and_is_idempotent_witness:
  "msg_type (ex_frame ''auth.success'') = Some (js_str ''auth.success'')
   \<and> reconnectAttempts ex_close2 = 2
   \<and> status (fst (on_message (Parsed (ex_frame ''auth.success'')) ex_close2)) = Connected
   \<and> reconnectAttempts (fst (on_message (Parsed (ex_frame ''auth.success'')) ex_close2)) = 0
   \<and> conversationId (fst (on_message (Parsed (ex_frame ''auth.success'')) ex_close2))
       = Some (js_str ''conv-1'')
   \<and> fst (on_message (Parsed (ex_frame ''auth.success''))
          (fst (on_message (Parsed (ex_frame ''auth.success'')) ex_close2)))
       = fst (on_message (Parsed (ex_frame ''auth.success'')) ex_close2)"
  using auth_success_connects_and_is_idempotent [of "ex_frame ''auth.success''" ex_close2]
  by (simp add: ex_frame_def ex_close2_counter)

text \<open>
  C8. On a \<open>ping\<close> frame the handler sends one \<open>pong\<close> frame on the socket, in the same
  call, and leaves the whole client state as it was: status, error, conversation id,
  streaming accumulator, \<open>reconnectAttempts\<close> and the refs.
\<close>

theorem ping_replies_pong_only:
  "msg_type m = Some (js_str ''ping'') \<Longrightarrow>
     on_message (Parsed m) s = (s, [WsSend WSPongMessage])"
  by (simp add: on_message_def js_str_eq_iff)

theorem ping_replies_pong_only_witness:
  "msg_type (ex_frame ''ping'') = Some (js_str ''ping'')
   \<and> on_message (Parsed (ex_frame ''ping'')) ex_streaming = (ex_streaming, [WsSend WSPongMessage])"
  using ping_replies_pong_only [of "ex_frame ''ping''" ex_streaming]
  by (simp add: ex_frame_def)

text \<open>
  C9. When the data of a message does not parse, or parses to \<open>null\<close>, or parses to a
  value whose \<open>type\<close> is none of \<open>auth.success\<close>, \<open>chat.stream\<close>, \<open>chat.error\<close> and
  \<open>ping\<close>, the handler leaves the whole client state as it was, sends no frame and
  calls no callback.
\<close>

theorem unhandled_message_changes_nothing:
  "on_message NotJSON s = (s, []) \<and> on_message JSONNull s = (s, []) \<and>
   (msg_type m \<notin> {Some (js_str ''auth.success''), Some (js_str ''chat.stream''),
                    Some (js_str ''chat.error''), Some (js_str ''ping'')}
      \<longrightarrow> on_message (Parsed m) s = (s, []))"
  by (simp add: on_message_def)

theorem unhandled_message_changes_nothing_witness:
  "msg_type (ex_frame ''pong'') \<notin> {Some (js_str ''auth.success''), Some (js_str ''chat.stream''),
                    Some (js_str ''chat.error''), Some (js_str ''ping'')}
   \<and> on_message (Parsed (ex_frame ''pong'')) ex_streaming = (ex_streaming, [])
   \<and> on_message NotJSON ex_streaming = (ex_streaming, [])"
  using unhandled_message_changes_nothing [of ex_streaming "ex_frame ''pong''"]
  by (simp add: ex_frame_def js_str_eq_iff)

subsection \<open>The accumulator\<close>

lemma on_message_keeps_None:
  "streamingMessage s = None \<Longrightarrow> streamingMessage (fst (on_message d s)) = None"
  by (cases d) (auto simp: on_message_def Let_def store_defs split: option.splits)

lemma disconnect_streaming:
  "streamingMessage (fst (disconnect s)) = streamingMessage s"
  by (simp add: disconnect_def store_defs split: option.splits)

lemma handle_keeps_None:
  "\<not> is_send ev \<Longrightarrow> streamingMessage s = None \<Longrightarrow> streamingMessage (fst (handle ev s)) = None"
proof (cases ev)
  case (EvConnect env)
  assume "streamingMessage s = None"
  with EvConnect show ?thesis
    by (simp add: handle_def connect_def store_defs split: option.splits)
next
  case EvDisconnect
  assume "streamingMessage s = None"
  with EvDisconnect show ?thesis by (simp add: handle_def disconnect_streaming)
next
  case (EvOpen tok)
  assume "streamingMessage s = None"
  with EvOpen show ?thesis by (simp add: handle_def on_open_def store_defs)
next
  case (EvMessage d)
  assume "streamingMessage s = None"
  with EvMessage show ?thesis by (simp add: handle_def on_message_keeps_None)
next
  case EvError
  assume "streamingMessage s = None"
  with EvError show ?thesis by (simp add: handle_def on_error_def store_defs)
next
  case (EvClose c)
  then show ?thesis by (simp add: handle_def on_close_def Let_def store_defs)
next
  case (EvReadyState r)
  assume "streamingMessage s = None"
  with EvReadyState show ?thesis by (simp add: handle_def)
next
  case (EvSendMessage c u)
  assume "\<not> is_send ev"
  with EvSendMessage show ?thesis by simp
next
  case (EvHandleSend i)
  assume "\<not> is_send ev"
  with EvHandleSend show ?thesis by simp
next
  case (EvSelectConversation cid)
  assume "streamingMessage s = None"
  with EvSelectConversation show ?thesis by (simp add: handle_def store_defs)
qed

lemma step_keeps_None:
  "\<not> is_send ev \<Longrightarrow> streamingMessage s = None \<Longrightarrow> streamingMessage (fst (step ev s)) = None"
  by (simp add: fst_step handle_keeps_None callbacks_streaming_None)

lemma run_keeps_None:
  "list_all (\<lambda>ev. \<not> is_send ev) evs \<Longrightarrow> streamingMessage s = None \<Longrightarrow>
     streamingMessage (fst (run evs s)) = None"
proof (induction evs arbitrary: s)
  case Nil
  then show ?case by simp
next
  case (Cons ev evs)
  from Cons.prems have "streamingMessage (fst (step ev s)) = None"
    by (simp add: step_keeps_None)
  with Cons.IH [of "fst (step ev s)"] Cons.prems show ?case
    by (simp add: fst_run_Cons del: run.simps)
qed

lemma send_creates_only_when_open:
  "is_send ev \<Longrightarrow> streamingMessage s = None \<Longrightarrow>
     streamingMessage (fst (step ev s)) \<noteq> None \<Longrightarrow> wsRef s = Some OPEN"
  by (cases ev)
     (auto simp: fst_step handle_def sendMessage_def handleSend_def Let_def store_defs
           split: if_splits)

text \<open>
  C10. \<open>startStreaming\<close> puts a fresh accumulator in place of whatever was there, and
  the store holds at most one. While the accumulator is null, \<open>appendStreamContent\<close> and
  \<open>finishStreaming\<close> leave it null, and so does every run of events without a send:
  frames that arrive after an error or a close create no accumulator. An event that
  does create one is a send (\<open>sendMessage\<close>, directly or from the input field) on an
  open socket.
\<close>

theorem accumulator_created_only_by_sending:
  "streamingMessage (startStreaming i s) = Some \<lparr>sm_id = i, content = [], isStreaming = True\<rparr>
   \<and> (streamingMessage s = None \<longrightarrow>
        streamingMessage (appendStreamContent c s) = None
        \<and> streamingMessage (finishStreaming j s) = None
        \<and> (list_all (\<lambda>ev. \<not> is_send ev) evs \<longrightarrow> streamingMessage (fst (run evs s)) = None)
        \<and> (streamingMessage (fst (step ev s)) \<noteq> None \<longrightarrow> is_send ev \<and> wsRef s = Some OPEN))"
proof (intro conjI impI)
  show "streamingMessage (startStreaming i s) = Some \<lparr>sm_id = i, content = [], isStreaming = True\<rparr>"
    by (simp add: startStreaming_def)
next
  assume "streamingMessage s = None"
  then show "streamingMessage (appendStreamContent c s) = None"
    by (simp add: appendStreamContent_def)
next
  assume "streamingMessage s = None"
  then show "streamingMessage (finishStreaming j s) = None"
    by (simp add: finishStreaming_def)
next
  assume "streamingMessage s = None" and "list_all (\<lambda>ev. \<not> is_send ev) evs"
  then show "streamingMessage (fst (run evs s)) = None"
    by (simp add: run_keeps_None)
next
  assume n: "streamingMessage s = None" and c: "streamingMessage (fst (step ev s)) \<noteq> None"
  show "is_send ev"
  proof (rule ccontr)
    assume "\<not> is_send ev"
    from step_keeps_None [OF this n] c show False by simp
  qed
  then show "wsRef s = Some OPEN"
    using n c by (rule send_creates_only_when_open)
qed

text \<open>
  The theorem on a client whose accumulator was discarded by a \<open>chat.error\<close> frame: a
  late delta and a late terminal frame leave it null, and a new send creates one.
\<close>

theorem accumulator_created_only_by_sending_witness:
  "streamingMessage (fst (step (EvMessage (Parsed (ex_frame ''chat.error''))) ex_streaming)) = None
   \<and> list_all (\<lambda>ev. \<not> is_send ev)
        [EvMessage (Parsed (ex_delta ''late'')), EvMessage (Parsed (ex_terminal [] ''msg-9''))]
   \<and> streamingMessage
        (fst (run [EvMessage (Parsed (ex_delta ''late'')), EvMessage (Parsed (ex_terminal [] ''msg-9''))]
           (fst (step (EvMessage (Parsed (ex_frame ''chat.error''))) ex_streaming)))) = None
   \<and> streamingMessage (fst (step (EvSendMessage (js_str ''hi'') (js_str ''corr-2''))
        (fst (step (EvMessage (Parsed (ex_frame ''chat.error''))) ex_streaming)))) \<noteq> None
   \<and> wsRef (fst (step (EvMessage (Parsed (ex_frame ''chat.error''))) ex_streaming)) = Some OPEN"
proof -
  have n: "streamingMessage (fst (step (EvMessage (Parsed (ex_frame ''chat.error''))) ex_streaming))
             = None"
    by (simp add: fst_step handle_def on_message_def ex_defs js_str_eq_iff chatArea_onError_def
          store_defs)
  have q: "list_all (\<lambda>ev. \<not> is_send ev)
             [EvMessage (Parsed (ex_delta ''late'')), EvMessage (Parsed (ex_terminal [] ''msg-9''))]"
    by simp
  have c: "streamingMessage (fst (step (EvSendMessage (js_str ''hi'') (js_str ''corr-2''))
        (fst (step (EvMessage (Parsed (ex_frame ''chat.error''))) ex_streaming)))) \<noteq> None"
    by (simp add: fst_step handle_def on_message_def sendMessage_def ex_defs js_str_eq_iff
          chatArea_onError_def store_defs)
  show ?thesis
    using n q c
      accumulator_created_only_by_sending
        [of "js_str ''corr-2''"
            "fst (step (EvMessage (Parsed (ex_frame ''chat.error''))) ex_streaming)"
            "[]" "[]"
            "[EvMessage (Parsed (ex_delta ''late'')), EvMessage (Parsed (ex_terminal [] ''msg-9''))]"
            "EvSendMessage (js_str ''hi'') (js_str ''corr-2'')"]
    by blast
qed

end
